theory Spec2Isabelle
  imports Complex_Main "HOL-Library.AList" "HOL-Library.Char_ord"
begin

section \<open>Characters and strings\<close>

text \<open>
  Python strings are modelled as \<open>string\<close> (lists of characters).  The
  character classes below are the ASCII ones: the letters \<open>a-z\<close> and \<open>A-Z\<close>,
  the digits, the underscore and the ASCII white space, given by their ranges
  of code points.  The development is about ASCII text; a character outside ASCII is treated as neither a letter
  nor a word character nor white space.
\<close>

definition is_lower :: "char \<Rightarrow> bool" where
  "is_lower c = (CHR ''a'' \<le> c \<and> c \<le> CHR ''z'')"

definition is_upper :: "char \<Rightarrow> bool" where
  "is_upper c = (CHR ''A'' \<le> c \<and> c \<le> CHR ''Z'')"

definition is_alpha :: "char \<Rightarrow> bool" where
  "is_alpha c = (is_lower c \<or> is_upper c)"

definition is_digit :: "char \<Rightarrow> bool" where
  "is_digit c = (CHR ''0'' \<le> c \<and> c \<le> CHR ''9'')"

text \<open>The class \<open>\w\<close> of the regular expressions: letters, digits, underscore.\<close>

definition is_word_char :: "char \<Rightarrow> bool" where
  "is_word_char c = (is_alpha c \<or> is_digit c \<or> c = CHR ''_'')"

text \<open>
  The class \<open>\s\<close>, which is also what \<open>str.strip()\<close> and \<open>str.split()\<close>
  remove: space, the characters \<open>0x09\<close> to \<open>0x0D\<close> (tab, line feed, vertical
  tab, form feed, carriage return) and the four separators \<open>0x1C\<close> to \<open>0x1F\<close>.
\<close>

definition is_space :: "char \<Rightarrow> bool" where
  "is_space c = (c = CHR '' '' \<or> (CHR 0x09 \<le> c \<and> c \<le> CHR 0x0D) \<or>
                 (CHR 0x1C \<le> c \<and> c \<le> CHR 0x1F))"

text \<open>
  \<open>str.lower()\<close> on one character and on a string: an upper-case letter is
  moved by 32 code points.
\<close>

definition to_lower :: "char \<Rightarrow> char" where
  "to_lower c = (if is_upper c then char_of (of_char c + (32::nat)) else c)"

definition lower :: "string \<Rightarrow> string" where
  "lower s = map to_lower s"

text \<open>\<open>str.strip()\<close>: white space is dropped at both ends.\<close>

definition strip :: "string \<Rightarrow> string" where
  "strip s = rev (dropWhile is_space (rev (dropWhile is_space s)))"

text \<open>
  \<open>sorted(xs, key=f)\<close> is the stable \<open>sort_key f xs\<close>.  With
  \<open>reverse=True\<close> Python sorts in descending order of the key and still keeps
  elements of equal key in their original order.
\<close>

definition sort_key_reverse :: "('a \<Rightarrow> 'k::linorder) \<Rightarrow> 'a list \<Rightarrow> 'a list" where
  "sort_key_reverse f xs = rev (sort_key f (rev xs))"

section \<open>Technical term matcher (update\_protocols.py)\<close>

text \<open>
  A glossary entry is a dictionary with the key \<open>clinical_term\<close> and the
  optional keys \<open>user_friendly_term\<close>, \<open>explanation\<close> and \<open>category\<close>.
\<close>

record glossary_entry =
  clinical_term :: string
  user_friendly_term :: "string option"
  explanation :: "string option"
  entry_category :: "string option"

text \<open>
  A match as \<open>find_technical_terms\<close> builds it: the dictionary with the keys
  \<open>term\<close>, \<open>position\<close>, \<open>end_position\<close>, \<open>definition\<close> and \<open>category\<close>.
\<close>

record term_match =
  term_text :: string
  position :: nat
  end_position :: nat
  defn :: string
  category :: string

text \<open>\<open>entry.get('user_friendly_term', entry.get('explanation', ''))\<close>\<close>

definition user_friendly :: "glossary_entry \<Rightarrow> string" where
  "user_friendly e =
     (case user_friendly_term e of
        Some u \<Rightarrow> u
      | None \<Rightarrow> (case explanation e of Some x \<Rightarrow> x | None \<Rightarrow> []))"

text \<open>\<open>entry.get('category', 'general')\<close>\<close>

definition category_of :: "glossary_entry \<Rightarrow> string" where
  "category_of e = (case entry_category e of Some c \<Rightarrow> c | None \<Rightarrow> ''general'')"

text \<open>
  The pattern is \<open>\b\<close>, the escaped lower-cased term, \<open>\b\<close>, searched with
  \<open>re.IGNORECASE\<close>.  \<open>\b\<close> holds at offset \<open>i\<close> when exactly one of the
  characters before and after \<open>i\<close> is a word character.
\<close>

definition word_boundary :: "string \<Rightarrow> nat \<Rightarrow> bool" where
  "word_boundary s i =
     ((0 < i \<and> i \<le> length s \<and> is_word_char (s ! (i - 1))) \<noteq>
      (i < length s \<and> is_word_char (s ! i)))"

definition literal_at :: "string \<Rightarrow> string \<Rightarrow> nat \<Rightarrow> bool" where
  "literal_at pat s i =
     (i + length pat \<le> length s \<and> lower (take (length pat) (drop i s)) = lower pat)"

definition term_at :: "string \<Rightarrow> string \<Rightarrow> nat \<Rightarrow> bool" where
  "term_at pat s i =
     (word_boundary s i \<and> literal_at pat s i \<and> word_boundary s (i + length pat))"

text \<open>
  \<open>re.finditer\<close>: the leftmost match from offset \<open>i\<close> on, then the search
  goes on behind it; behind an empty match it goes on one character further.
\<close>

function finditer_term :: "string \<Rightarrow> string \<Rightarrow> nat \<Rightarrow> (nat \<times> nat) list" where
  "finditer_term pat s i =
     (if length s < i then []
      else if term_at pat s i
      then (i, i + length pat) #
           finditer_term pat s (if pat = [] then i + 1 else i + length pat)
      else finditer_term pat s (i + 1))"
  by pat_completeness auto
termination
  by (relation "measure (\<lambda>(pat, s, i). length s + 1 - i)") (auto simp: neq_Nil_conv)

declare finditer_term.simps [simp del]

definition matches_of_entry :: "string \<Rightarrow> glossary_entry \<Rightarrow> term_match list" where
  "matches_of_entry protocol_text e =
     map (\<lambda>(p, q). \<lparr>term_text = take (q - p) (drop p protocol_text),
                     position = p, end_position = q,
                     defn = user_friendly e, category = category_of e\<rparr>)
         (finditer_term (lower (clinical_term e)) protocol_text 0)"

text \<open>The overlap test of the sweep against the ranges kept so far.\<close>

definition overlaps :: "(nat \<times> nat) list \<Rightarrow> term_match \<Rightarrow> bool" where
  "overlaps seen_ranges t =
     list_ex (\<lambda>(start, end).
                (start \<le> position t \<and> position t < end) \<or>
                (start < end_position t \<and> end_position t \<le> end))
             seen_ranges"

fun remove_overlaps :: "(nat \<times> nat) list \<Rightarrow> term_match list \<Rightarrow> term_match list" where
  "remove_overlaps seen_ranges [] = []"
| "remove_overlaps seen_ranges (t # ts) =
     (if overlaps seen_ranges t then remove_overlaps seen_ranges ts
      else t # remove_overlaps (seen_ranges @ [(position t, end_position t)]) ts)"

definition sorted_glossary :: "glossary_entry list \<Rightarrow> glossary_entry list" where
  "sorted_glossary glossary = sort_key_reverse (\<lambda>x. length (clinical_term x)) glossary"

definition technical_terms :: "string \<Rightarrow> glossary_entry list \<Rightarrow> term_match list" where
  "technical_terms protocol_text glossary =
     concat (map (matches_of_entry protocol_text) (sorted_glossary glossary))"

definition find_technical_terms :: "string \<Rightarrow> glossary_entry list \<Rightarrow> term_match list" where
  "find_technical_terms protocol_text glossary =
     remove_overlaps [] (sort_key position (technical_terms protocol_text glossary))"

section \<open>Regular expression searches\<close>

text \<open>
  Every pattern of the sources is a matcher: given the character before the
  current offset (none at the start of the text) and the rest of the text, it
  returns what the match yields and how many characters it takes, or
  \<open>None\<close> when the pattern does not match at this offset.  No pattern
  modelled this way matches the empty string.  \<open>re_scan\<close> is the left-to-right
  search shared by \<open>re.sub\<close>, \<open>re.findall\<close> and \<open>re.search\<close>: at each offset
  the pattern is tried; a match is recorded and the search goes on behind it,
  otherwise the character is passed over.
\<close>

type_synonym 'r matcher = "char option \<Rightarrow> string \<Rightarrow> ('r \<times> nat) option"

fun re_scan :: "'r matcher \<Rightarrow> char option \<Rightarrow> string \<Rightarrow> ('r + char) list" where
  "re_scan m prev [] = []"
| "re_scan m prev (c # cs) =
     (case m prev (c # cs) of
        Some (r, n) \<Rightarrow> Inl r # re_scan m (Some ((c # cs) ! (n - 1))) (drop (n - 1) cs)
      | None \<Rightarrow> Inr c # re_scan m (Some c) cs)"

definition re_sub :: "string matcher \<Rightarrow> string \<Rightarrow> string" where
  "re_sub m s = concat (map (case_sum id (\<lambda>c. [c])) (re_scan m None s))"

definition re_findall :: "'r matcher \<Rightarrow> string \<Rightarrow> 'r list" where
  "re_findall m s = concat (map (case_sum (\<lambda>r. [r]) (\<lambda>c. [])) (re_scan m None s))"


definition starts_with :: "string \<Rightarrow> string \<Rightarrow> bool" where
  "starts_with p s = (take (length p) s = p)"



section \<open>Tooltip injector (update\_protocols.py)\<close>

text \<open>
  The priority score of a match.  The source computes it in binary floating
  point; here it is the exact rational number.  It only decides the order
  in which matches are selected.
\<close>

definition priority_score :: "term_match \<Rightarrow> rat" where
  "priority_score t =
     (1000 - of_nat (position t)) * (4 / 10) +
     of_nat (length (defn t)) * (3 / 10) +
     (if category t = ''neuroscience'' then 100 else 50) * (3 / 10)"

text \<open>The slice \<open>xs[:n]\<close>; a negative \<open>n\<close> counts from the end of the list.\<close>

definition slice_to :: "'a list \<Rightarrow> int \<Rightarrow> 'a list" where
  "slice_to xs n = (if 0 \<le> n then take (nat n) xs else take (length xs - nat (- n)) xs)"

definition top_terms :: "term_match list \<Rightarrow> int \<Rightarrow> term_match list" where
  "top_terms terms max_tooltips =
     sort_key_reverse position (slice_to (sort_key_reverse priority_score terms) max_tooltips)"

text \<open>The markup \<open>{{term||definition}}\<close>.\<close>

definition tooltip :: "string \<Rightarrow> string \<Rightarrow> string" where
  "tooltip trm definition = ''{{'' @ trm @ ''||'' @ definition @ ''}}''"






section \<open>Markup validator (update\_protocols.py)\<close>









section \<open>Text complexity analyzer (validation-framework.py)\<close>

text \<open>\<open>re.findall(r'[aeiouy]+', word)\<close>: the maximal runs of vowels.\<close>

definition is_vowel :: "char \<Rightarrow> bool" where
  "is_vowel c = (c \<in> set ''aeiouy'')"

definition vowel_pattern :: "string matcher" where
  "vowel_pattern prev s =
     (let g = takeWhile is_vowel s in if g = [] then None else Some (g, length g))"

definition endswith :: "string \<Rightarrow> string \<Rightarrow> bool" where
  "endswith s suffix = (length suffix \<le> length s \<and> drop (length s - length suffix) s = suffix)"

text \<open>
  \<open>count_syllables\<close>: the word is lower-cased and stripped, every character
  outside \<open>a-z\<close> is removed, and the empty word has no syllable.
\<close>

definition count_syllables :: "string \<Rightarrow> nat" where
  "count_syllables word0 =
     (let word = filter is_lower (strip (lower word0))
      in if word = [] then 0
         else let vowel_groups = re_findall vowel_pattern word;
                  syllable_count = length vowel_groups;
                  syllable_count = (if endswith word ''e'' \<and> syllable_count > 1
                                    then syllable_count - 1 else syllable_count)
              in max 1 syllable_count)"

text \<open>
  The rule of the specification for \<open>countSyllables\<close>, written from its words:
  the number of maximal runs of vowels in the lower-cased, alphabetic-only
  form of the word (a run starts at a vowel that does not follow a vowel),
  minus one if the form ends in \<open>e\<close> and has more than one run, floored at 1.
\<close>

fun vowel_runs :: "bool \<Rightarrow> string \<Rightarrow> nat" where
  "vowel_runs after_vowel [] = 0"
| "vowel_runs after_vowel (c # cs) =
     (if is_vowel c \<and> \<not> after_vowel then 1 else 0) + vowel_runs (is_vowel c) cs"

definition alphabetic_form :: "string \<Rightarrow> string" where
  "alphabetic_form w = filter is_alpha (lower w)"

definition spec_count_syllables :: "string \<Rightarrow> nat" where
  "spec_count_syllables w =
     (let form = alphabetic_form w;
          runs = vowel_runs False form
      in max 1 (if form \<noteq> [] \<and> last form = CHR ''e'' \<and> 1 < runs then runs - 1 else runs))"

text \<open>
  \<open>count_sentences\<close>.  The first pattern is
  \<open>\b(Dr|Mr|Mrs|Ms|etc|i\.e|e\.g)\.\<close> with \<open>re.IGNORECASE\<close>, replaced by the
  group followed by \<open><PERIOD>\<close>: the alternatives are tried in order, each
  followed by a full stop, at an offset that does not follow a word character.
\<close>

definition abbreviations :: "string list" where
  "abbreviations = [''Dr'', ''Mr'', ''Mrs'', ''Ms'', ''etc'', ''i.e'', ''e.g'']"

fun starts_with_ci :: "string \<Rightarrow> string \<Rightarrow> bool" where
  "starts_with_ci [] s = True"
| "starts_with_ci (p # ps) [] = False"
| "starts_with_ci (p # ps) (c # cs) = (to_lower p = to_lower c \<and> starts_with_ci ps cs)"

definition abbreviation_pattern :: "string matcher" where
  "abbreviation_pattern prev s =
     (if (case prev of None \<Rightarrow> False | Some c \<Rightarrow> is_word_char c) then None
      else (case find (\<lambda>a. starts_with_ci (a @ ''.'') s) abbreviations of
              None \<Rightarrow> None
            | Some a \<Rightarrow> Some (take (length a) s @ ''<PERIOD>'', length a + 1)))"

text \<open>\<open>re.split(r'[.!?]+', text)\<close>: the pieces between the maximal runs of terminators.\<close>

definition is_terminator :: "char \<Rightarrow> bool" where
  "is_terminator c = (c \<in> set ''.!?'')"

definition terminator_pattern :: "unit matcher" where
  "terminator_pattern prev s =
     (let g = takeWhile is_terminator s in if g = [] then None else Some ((), length g))"

fun split_tokens :: "('r + char) list \<Rightarrow> string list" where
  "split_tokens [] = [[]]"
| "split_tokens (Inl r # ts) = [] # split_tokens ts"
| "split_tokens (Inr c # ts) =
     (case split_tokens ts of f # fs \<Rightarrow> (c # f) # fs | [] \<Rightarrow> [[c]])"

definition re_split :: "'r matcher \<Rightarrow> string \<Rightarrow> string list" where
  "re_split m s = split_tokens (re_scan m None s)"

definition count_sentences :: "string \<Rightarrow> nat" where
  "count_sentences text0 =
     (let text1 = re_sub abbreviation_pattern text0;
          sentences = re_split terminator_pattern text1;
          sentences = map strip (filter (\<lambda>s. strip s \<noteq> []) sentences)
      in max 1 (length sentences))"

text \<open>
  The grade level.  The source computes in binary floating point and rounds
  with \<open>round(x, 2)\<close>; here the value is the exact rational number, rounded to
  two decimals, a tie going to the even neighbour.
\<close>

definition round2 :: "rat \<Rightarrow> rat" where
  "round2 x =
     (let y = x * 100; f = \<lfloor>y\<rfloor>; d = y - of_int f
      in of_int (if d < 1 / 2 then f
                 else if 1 / 2 < d then f + 1
                 else if even f then f else f + 1) / 100)"

definition calculate_flesch_kincaid_grade :: "string \<Rightarrow> nat \<Rightarrow> nat \<Rightarrow> nat \<Rightarrow> rat" where
  "calculate_flesch_kincaid_grade text0 word_count sentence_count syllable_count =
     (if word_count = 0 \<or> sentence_count = 0 then 0
      else let avg_words_per_sentence = of_nat word_count / of_nat sentence_count;
               avg_syllables_per_word = of_nat syllable_count / of_nat word_count;
               grade_level = (39 / 100) * avg_words_per_sentence +
                             (118 / 10) * avg_syllables_per_word - 1559 / 100
           in round2 grade_level)"

text \<open>
  \<open>analyze_text_complexity\<close>.  The four substitutions remove \<open>**\<close>, then
  \<open>*\<close>, then one to six \<open>#\<close> followed by a white space character, and
  replace a link \<open>[text](target)\<close> by its text.  The words are the matches of
  \<open>\b[a-zA-Z]+\b\<close>: a maximal run of letters that neither follows nor precedes
  a word character.
\<close>

definition remove_pattern :: "string \<Rightarrow> string matcher" where
  "remove_pattern p prev s = (if p \<noteq> [] \<and> starts_with p s then Some ([], length p) else None)"

definition header_pattern :: "string matcher" where
  "header_pattern prev s =
     (let k = length (takeWhile (\<lambda>c. c = CHR ''#'') s)
      in if 1 \<le> k \<and> k \<le> 6 \<and> k < length s \<and> is_space (s ! k) then Some ([], k + 1)
         else None)"

definition link_pattern :: "string matcher" where
  "link_pattern prev s =
     (if \<not> starts_with ''['' s then None
      else let g = takeWhile (\<lambda>c. c \<noteq> CHR '']'') (drop 1 s);
               r = drop (1 + length g) s;
               d = takeWhile (\<lambda>c. c \<noteq> CHR '')'') (drop 2 r);
               e = drop (2 + length d) r
           in if g \<noteq> [] \<and> starts_with '']('' r \<and> d \<noteq> [] \<and> starts_with '')'' e
              then Some (g, 1 + length g + 2 + length d + 1)
              else None)"

definition word_pattern :: "string matcher" where
  "word_pattern prev s =
     (let g = takeWhile is_alpha s; r = drop (length g) s
      in if (case prev of None \<Rightarrow> True | Some c \<Rightarrow> \<not> is_word_char c) \<and> g \<noteq> [] \<and>
            (case r of [] \<Rightarrow> True | c # cs \<Rightarrow> \<not> is_word_char c)
         then Some (g, length g)
         else None)"

definition words_of :: "string \<Rightarrow> string list" where
  "words_of s = re_findall word_pattern s"

definition analyze_text_complexity :: "string \<Rightarrow> nat \<times> nat \<times> nat" where
  "analyze_text_complexity text0 =
     (let clean_text = re_sub (remove_pattern ''**'') text0;
          clean_text = re_sub (remove_pattern ''*'') clean_text;
          clean_text = re_sub header_pattern clean_text;
          clean_text = re_sub link_pattern clean_text;
          words = words_of clean_text;
          word_count = length words;
          sentence_count = count_sentences clean_text;
          syllable_count = sum_list (map count_syllables words)
      in (word_count, sentence_count, syllable_count))"

text \<open>The grade level of a text, as every caller computes it.\<close>

definition grade_level_of :: "string \<Rightarrow> rat" where
  "grade_level_of text0 =
     (case analyze_text_complexity text0 of
        (word_count, sentence_count, syllable_count) \<Rightarrow>
          calculate_flesch_kincaid_grade text0 word_count sentence_count syllable_count)"

section \<open>Degradation diagnosis (identify-degraded-protocols.py)\<close>

text \<open>
  A protocol is the database row; the keys read with \<open>.get\<close> are optional.
  Reading levels are rational numbers (see \<open>round2\<close>).
\<close>

record protocol =
  p_id :: string
  p_chunk_text :: "string option"
  p_simplified_text :: "string option"
  p_chunk_summary :: "string option"
  p_reading_level_before :: "rat option"
  p_reading_level_after :: "rat option"

text \<open>The strategy tags, which the source writes as strings.\<close>

datatype strategy =
    shorten_definitions
  | simplify_language
  | remove_tooltips
  | manual_review
  | revert_to_original

datatype cause =
    Long_tooltips nat
  | Complex_tooltips nat
  | High_density nat
  | Unknown_cause

text \<open>
  The pattern \<open>\{\{([^|]+)\|\|([^}]+)\}\}\<close> with its two groups: the term
  runs up to the first bar, the definition up to the first closing brace.
\<close>

definition tooltip_pattern :: "(string \<times> string) matcher" where
  "tooltip_pattern prev s =
     (if \<not> starts_with ''{{'' s then None
      else let g = takeWhile (\<lambda>c. c \<noteq> CHR ''|'') (drop 2 s);
               r = drop (2 + length g) s;
               d = takeWhile (\<lambda>c. c \<noteq> CHR ''}'') (drop 2 r);
               e = drop (2 + length d) r
           in if g \<noteq> [] \<and> starts_with ''||'' r \<and> d \<noteq> [] \<and> starts_with ''}}'' e
              then Some ((g, d), 2 + length g + 2 + length d + 2)
              else None)"

record tooltip_info =
  tooltip_term :: string
  tooltip_definition :: string
  tooltip_length :: nat
  tooltip_word_count :: nat
  tooltip_reading_level :: rat

definition extract_tooltips_from_text :: "string \<Rightarrow> tooltip_info list" where
  "extract_tooltips_from_text text0 =
     map (\<lambda>(trm, definition).
            (case analyze_text_complexity definition of
               (word_count, sentence_count, syllable_count) \<Rightarrow>
                 \<lparr>tooltip_term = strip trm,
                  tooltip_definition = strip definition,
                  tooltip_length = length definition,
                  tooltip_word_count = word_count,
                  tooltip_reading_level =
                    calculate_flesch_kincaid_grade definition word_count sentence_count
                      syllable_count\<rparr>))
         (re_findall tooltip_pattern text0)"

text \<open>The pattern \<open>\{\{[^}]+\}\}\<close> counted in each sentence, and \<open>str.split()\<close>.\<close>

definition any_tooltip_pattern :: "unit matcher" where
  "any_tooltip_pattern prev s =
     (if \<not> starts_with ''{{'' s then None
      else let d = takeWhile (\<lambda>c. c \<noteq> CHR ''}'') (drop 2 s);
               e = drop (2 + length d) s
           in if d \<noteq> [] \<and> starts_with ''}}'' e then Some ((), 2 + length d + 2) else None)"

definition space_pattern :: "unit matcher" where
  "space_pattern prev s =
     (let g = takeWhile is_space s in if g = [] then None else Some ((), length g))"

definition split_ws :: "string \<Rightarrow> string list" where
  "split_ws s = filter (\<lambda>w. w \<noteq> []) (re_split space_pattern s)"

record sentence_info =
  sentence :: string
  tooltip_count :: nat
  sentence_length :: nat

record density =
  max_tooltips_per_sentence :: nat
  avg_tooltips_per_sentence :: rat
  high_density_sentences :: "sentence_info list"

definition analyze_sentence_tooltip_density :: "string \<Rightarrow> density" where
  "analyze_sentence_tooltip_density text0 =
     (let sentences = re_split terminator_pattern text0;
          counted = map (\<lambda>s. (s, length (re_findall any_tooltip_pattern s)))
                        (filter (\<lambda>s. strip s \<noteq> []) sentences);
          sentence_analysis =
            map (\<lambda>(s, n). \<lparr>sentence = take 100 (strip s) @ ''...'', tooltip_count = n,
                            sentence_length = length (split_ws s)\<rparr>)
                (filter (\<lambda>(s, n). 0 < n) counted)
      in \<lparr>max_tooltips_per_sentence = fold (\<lambda>(s, n) m. max m n) counted 0,
          avg_tooltips_per_sentence =
            of_nat (length (filter (\<lambda>s. 0 < tooltip_count s) sentence_analysis)) /
            of_nat (max (length sentences) 1),
          high_density_sentences = filter (\<lambda>s. 3 \<le> tooltip_count s) sentence_analysis\<rparr>)"

record diagnosis =
  d_protocol_id :: string
  d_chunk_summary :: string
  d_reading_level_before :: rat
  d_reading_level_after :: rat
  d_degradation :: rat
  d_tooltip_count :: nat
  d_long_tooltips :: nat
  d_complex_tooltips :: nat
  d_max_tooltips_per_sentence :: nat
  d_primary_causes :: "cause list"
  d_repair_strategies :: "strategy list"
  d_tooltip_details :: "tooltip_info list"
  d_high_density_sentences :: "sentence_info list"

definition get_or :: "'a option \<Rightarrow> 'a \<Rightarrow> 'a" where
  "get_or v dflt = (case v of Some x \<Rightarrow> x | None \<Rightarrow> dflt)"

definition diagnose_degradation :: "protocol \<Rightarrow> diagnosis" where
  "diagnose_degradation p =
     (let simplified_text = get_or (p_simplified_text p) [];
          tooltips = extract_tooltips_from_text simplified_text;
          long_tooltips = filter (\<lambda>t. 15 < tooltip_word_count t) tooltips;
          complex_tooltips = filter (\<lambda>t. 8 < tooltip_reading_level t) tooltips;
          density_analysis = analyze_sentence_tooltip_density simplified_text;
          found =
            (if 0 < length long_tooltips
             then [(Long_tooltips (length long_tooltips), shorten_definitions)] else []) @
            (if 0 < length complex_tooltips
             then [(Complex_tooltips (length complex_tooltips), simplify_language)] else []) @
            (if 3 \<le> max_tooltips_per_sentence density_analysis
             then [(High_density (max_tooltips_per_sentence density_analysis), remove_tooltips)]
             else []);
          found = (if found = [] then [(Unknown_cause, manual_review)] else found)
      in \<lparr>d_protocol_id = p_id p,
          d_chunk_summary = get_or (p_chunk_summary p) ''No summary'',
          d_reading_level_before = get_or (p_reading_level_before p) 0,
          d_reading_level_after = get_or (p_reading_level_after p) 0,
          d_degradation = get_or (p_reading_level_after p) 0 - get_or (p_reading_level_before p) 0,
          d_tooltip_count = length tooltips,
          d_long_tooltips = length long_tooltips,
          d_complex_tooltips = length complex_tooltips,
          d_max_tooltips_per_sentence = max_tooltips_per_sentence density_analysis,
          d_primary_causes = map fst found,
          d_repair_strategies = map snd found,
          d_tooltip_details = take 3 tooltips,
          d_high_density_sentences = take 2 (high_density_sentences density_analysis)\<rparr>)"

section \<open>Repair policies (repair-degraded-protocols.py and its second version)\<close>

definition join :: "string \<Rightarrow> string list \<Rightarrow> string" where
  "join sep ws = (case ws of [] \<Rightarrow> [] | w # rest \<Rightarrow> w @ concat (map (\<lambda>x. sep @ x) rest))"

text \<open>
  \<open>simplify_tooltip_definition\<close>: the first piece of the split at terminators,
  stripped, and cut to twelve words followed by an ellipsis when longer.  The
  list returned by \<open>re.split\<close> is never empty.
\<close>

definition simplify_tooltip_definition :: "string \<Rightarrow> rat \<Rightarrow> string" where
  "simplify_tooltip_definition definition max_reading_level =
     (let sentences = re_split terminator_pattern definition;
          first_sentence = (case sentences of [] \<Rightarrow> definition | s # rest \<Rightarrow> strip s);
          words = split_ws first_sentence
      in if 12 < length words then join '' '' (take 12 words) @ ''...'' else first_sentence)"

text \<open>
  \<open>re.sub\<close> with a function: every match of the tooltip pattern is replaced
  by what the function returns for its two groups and its whole text.
\<close>

definition sub_tooltips :: "(string \<Rightarrow> string \<Rightarrow> string \<Rightarrow> string) \<Rightarrow> string \<Rightarrow> string" where
  "sub_tooltips f text0 =
     re_sub (\<lambda>prev s. map_option (\<lambda>((g1, g2), n). (f g1 g2 (take n s), n)) (tooltip_pattern prev s))
            text0"

definition extract_and_simplify_tooltips :: "string \<Rightarrow> bool \<Rightarrow> rat \<Rightarrow> string" where
  "extract_and_simplify_tooltips text0 simplify max_reading_level =
     sub_tooltips (\<lambda>g1 g2 whole.
        if simplify
        then tooltip (strip g1) (simplify_tooltip_definition (strip g2) max_reading_level)
        else whole) text0"

definition too_complex :: "rat \<Rightarrow> string \<Rightarrow> bool" where
  "too_complex reading_level_threshold g2 = (reading_level_threshold < grade_level_of (strip g2))"

definition remove_complex_tooltips :: "string \<Rightarrow> rat \<Rightarrow> string \<times> nat" where
  "remove_complex_tooltips text0 reading_level_threshold =
     (sub_tooltips (\<lambda>g1 g2 whole.
         if too_complex reading_level_threshold g2 then strip g1 else whole) text0,
      length (filter (\<lambda>(g1, g2). too_complex reading_level_threshold g2)
                (re_findall tooltip_pattern text0)))"

record repair_result =
  protocol_id :: string
  chunk_summary :: string
  reading_level_before :: rat
  reading_level_after :: rat
  reading_level_repaired :: rat
  degradation :: rat
  repair_improvement :: rat
  net_change :: rat
  strategy_applied :: "strategy option"
  tooltips_modified :: nat
  should_update :: bool
  repaired_text :: string

text \<open>The \<open>if\<close>/\<open>elif\<close> chain of \<open>repair_protocol\<close>; it has no \<open>else\<close>.\<close>

definition apply_strategy :: "strategy list \<Rightarrow> string \<Rightarrow> string \<times> strategy option \<times> nat" where
  "apply_strategy repair_strategies simplified_text =
     (if simplify_language \<in> set repair_strategies
      then (extract_and_simplify_tooltips simplified_text True 7, Some simplify_language, 0)
      else if remove_tooltips \<in> set repair_strategies
      then (case remove_complex_tooltips simplified_text 8 of
              (cleaned, removed) \<Rightarrow> (cleaned, Some remove_tooltips, removed))
      else if manual_review \<in> set repair_strategies
      then (simplified_text, Some manual_review, 0)
      else (simplified_text, None, 0))"

definition repair_protocol :: "protocol \<Rightarrow> diagnosis \<Rightarrow> repair_result" where
  "repair_protocol p diag =
     (let simplified_text = get_or (p_simplified_text p) []
      in (case apply_strategy (d_repair_strategies diag) simplified_text of
            (repaired, applied, modified) \<Rightarrow>
              (let reading_level_repaired = grade_level_of repaired;
                   improvement = d_reading_level_after diag - reading_level_repaired
               in \<lparr>protocol_id = p_id p,
                   chunk_summary = d_chunk_summary diag,
                   reading_level_before = d_reading_level_before diag,
                   reading_level_after = d_reading_level_after diag,
                   reading_level_repaired = reading_level_repaired,
                   degradation = d_degradation diag,
                   repair_improvement = improvement,
                   net_change = reading_level_repaired - d_reading_level_before diag,
                   strategy_applied = applied,
                   tooltips_modified = modified,
                   should_update = (1 / 10 < improvement \<and>
                                    reading_level_repaired < d_reading_level_after diag),
                   repaired_text = repaired\<rparr>)))"

text \<open>The second version: the original text is restored and always written back.\<close>

record revert_result =
  rv_protocol_id :: string
  rv_chunk_summary :: string
  rv_reading_level_before :: rat
  rv_reading_level_after :: rat
  rv_reading_level_repaired :: rat
  rv_degradation :: rat
  rv_repair_improvement :: rat
  rv_net_change :: rat
  rv_strategy_applied :: strategy
  rv_should_update :: bool
  rv_repaired_text :: string

definition repair_protocol_revert :: "protocol \<Rightarrow> diagnosis \<Rightarrow> revert_result" where
  "repair_protocol_revert p diag =
     (let original_text = get_or (p_chunk_text p) [];
          repaired = original_text;
          reading_level_repaired = grade_level_of repaired;
          improvement = d_reading_level_after diag - reading_level_repaired
      in \<lparr>rv_protocol_id = p_id p,
          rv_chunk_summary = d_chunk_summary diag,
          rv_reading_level_before = d_reading_level_before diag,
          rv_reading_level_after = d_reading_level_after diag,
          rv_reading_level_repaired = reading_level_repaired,
          rv_degradation = d_degradation diag,
          rv_repair_improvement = improvement,
          rv_net_change = reading_level_repaired - d_reading_level_before diag,
          rv_strategy_applied = revert_to_original,
          rv_should_update = True,
          rv_repaired_text = repaired\<rparr>)"
section \<open>Example inputs\<close>

definition glossary_cortex :: "glossary_entry list" where
  "glossary_cortex =
     [\<lparr>clinical_term = ''cortex'', user_friendly_term = Some ''outer brain layer'',
       explanation = None, entry_category = Some ''neuroscience''\<rparr>,
      \<lparr>clinical_term = ''prefrontal cortex'', user_friendly_term = Some ''planning center'',
       explanation = None, entry_category = Some ''neuroscience''\<rparr>]"



text \<open>
  A degraded protocol whose one tooltip has a long but simple definition, and
  one whose tooltip has a complex definition of two sentences; both carry the
  reading levels of their two texts.
\<close>

definition long_tooltip_protocol :: protocol where
  "long_tooltip_protocol =
     \<lparr>p_id = ''p1'',
      p_chunk_text = Some ''The cortex is here.'',
      p_simplified_text = Some ''The {{cortex||it is the part of the head we use to plan and to think a lot}} is here.'',
      p_chunk_summary = None,
      p_reading_level_before = Some (grade_level_of ''The cortex is here.''),
      p_reading_level_after = Some (grade_level_of ''The {{cortex||it is the part of the head we use to plan and to think a lot}} is here.'')\<rparr>"

definition complex_tooltip_protocol :: protocol where
  "complex_tooltip_protocol =
     \<lparr>p_id = ''p2'',
      p_chunk_text = Some ''Cortex.'',
      p_simplified_text = Some ''{{Cortex||outer layer. Sophisticated computational}}.'',
      p_chunk_summary = None,
      p_reading_level_before = Some (grade_level_of ''Cortex.''),
      p_reading_level_after = Some (grade_level_of ''{{Cortex||outer layer. Sophisticated computational}}.'')\<rparr>"

text \<open>The diagnoses of the two protocols, as \<open>diagnose_degradation\<close> returns them.\<close>

definition long_tooltip_diagnosis :: diagnosis where
  "long_tooltip_diagnosis =
     \<lparr>d_protocol_id = ''p1'', d_chunk_summary = ''No summary'',
      d_reading_level_before = 18 / 25, d_reading_level_after = 23 / 5,
      d_degradation = 97 / 25, d_tooltip_count = 1, d_long_tooltips = 1,
      d_complex_tooltips = 0, d_max_tooltips_per_sentence = 1,
      d_primary_causes = [Long_tooltips 1],
      d_repair_strategies = [shorten_definitions],
      d_tooltip_details =
        [\<lparr>tooltip_term = ''cortex'',
          tooltip_definition = ''it is the part of the head we use to plan and to think a lot'',
          tooltip_length = 60, tooltip_word_count = 16,
          tooltip_reading_level = 49 / 20\<rparr>],
      d_high_density_sentences = []\<rparr>"

definition complex_tooltip_diagnosis :: diagnosis where
  "complex_tooltip_diagnosis =
     \<lparr>d_protocol_id = ''p2'', d_chunk_summary = ''No summary'',
      d_reading_level_before = 42 / 5, d_reading_level_after = 1039 / 50,
      d_degradation = 619 / 50, d_tooltip_count = 1, d_long_tooltips = 0,
      d_complex_tooltips = 1, d_max_tooltips_per_sentence = 0,
      d_primary_causes = [Complex_tooltips 1],
      d_repair_strategies = [simplify_language],
      d_tooltip_details =
        [\<lparr>tooltip_term = ''Cortex'',
          tooltip_definition = ''outer layer. Sophisticated computational'',
          tooltip_length = 40, tooltip_word_count = 4,
          tooltip_reading_level = 1177 / 50\<rparr>],
      d_high_density_sentences = []\<rparr>"


section \<open>Evaluation of the searches\<close>

text \<open>
  The same search with a single recursive call, as the equation by which
  concrete searches are evaluated.
\<close>

lemma re_scan_code [code]:
  "re_scan m prev [] = []"
  "re_scan m prev (c # cs) =
     (let found = m prev (c # cs)
      in if Option.is_none found then Inr c # re_scan m (Some c) cs
         else Inl (fst (the found)) #
              re_scan m (Some ((c # cs) ! (snd (the found) - 1))) (drop (snd (the found) - 1) cs))"
  by (auto simp: Option.is_none_def split: option.split)

text \<open>
  Lower-casing on the bits of a character: an upper-case letter has bit 5
  clear, and moving it by 32 code points sets that bit.
\<close>

lemma to_lower_code [code]:
  "to_lower (Char b0 b1 b2 b3 b4 b5 b6 b7) =
     (if is_upper (Char b0 b1 b2 b3 b4 b5 b6 b7) then Char b0 b1 b2 b3 b4 True b6 b7
      else Char b0 b1 b2 b3 b4 b5 b6 b7)"
proof -
  have "(of_char (to_lower (Char b0 b1 b2 b3 b4 b5 b6 b7)) :: nat) =
        of_char (if is_upper (Char b0 b1 b2 b3 b4 b5 b6 b7) then Char b0 b1 b2 b3 b4 True b6 b7
                 else Char b0 b1 b2 b3 b4 b5 b6 b7)"
    by (cases b0; cases b1; cases b2; cases b3; cases b4; cases b5; cases b6; cases b7;
        simp add: to_lower_def is_upper_def less_eq_char_def)
  then show ?thesis by (simp only: of_char_eq_iff)
qed

section \<open>Properties of the term matcher\<close>

lemma not_overlaps_iff:
  "(\<not> overlaps seen t) =
   (\<forall>(s, e)\<in>set seen. \<not> (s \<le> position t \<and> position t < e) \<and>
                          \<not> (s < end_position t \<and> end_position t \<le> e))"
  by (auto simp: overlaps_def list_ex_iff)

lemma remove_overlaps_separated:
  "sorted (map position ts) \<Longrightarrow>
   \<forall>(s, e)\<in>set seen. \<forall>t\<in>set ts. s \<le> position t \<Longrightarrow>
   sorted_wrt (\<lambda>a b. end_position a \<le> position b) (remove_overlaps seen ts) \<and>
   (\<forall>t\<in>set (remove_overlaps seen ts). \<forall>(s, e)\<in>set seen. e \<le> position t)"
proof (induction ts arbitrary: seen)
  case Nil
  then show ?case by simp
next
  case (Cons t ts)
  have srt: "sorted (map position ts)" and le: "\<forall>u\<in>set ts. position t \<le> position u"
    using Cons.prems(1) by auto
  show ?case
  proof (cases "overlaps seen t")
    case True
    have "\<forall>(s, e)\<in>set seen. \<forall>u\<in>set ts. s \<le> position u"
      using Cons.prems(2) by auto
    from Cons.IH [OF srt this] True show ?thesis by simp
  next
    case False
    let ?seen = "seen @ [(position t, end_position t)]"
    have pre: "\<forall>(s, e)\<in>set ?seen. \<forall>u\<in>set ts. s \<le> position u"
      using Cons.prems(2) le by auto
    note ih = Cons.IH [OF srt pre]
    have here: "\<forall>(s, e)\<in>set seen. e \<le> position t"
      using False Cons.prems(2) unfolding not_overlaps_iff by fastforce
    have rest: "\<forall>u\<in>set (remove_overlaps ?seen ts). end_position t \<le> position u"
      using ih by auto
    have old: "\<forall>u\<in>set (remove_overlaps ?seen ts). \<forall>(s, e)\<in>set seen. e \<le> position u"
      using ih by auto
    show ?thesis using False ih here rest old by simp
  qed
qed

lemma find_technical_terms_separated:
  "sorted_wrt (\<lambda>a b. end_position a \<le> position b) (find_technical_terms T G)"
  unfolding find_technical_terms_def
  using remove_overlaps_separated [of "sort_key position (technical_terms T G)" "[]"]
  by simp

text \<open>
  Claim C3.  For every glossary and text, any two distinct matches in the list
  returned by \<open>find_technical_terms\<close> cover disjoint ranges of offsets
  \<open>[position, end_position)\<close>.
\<close>

theorem find_technical_terms_non_overlap:
  assumes "i < length (find_technical_terms T G)"
    and "j < length (find_technical_terms T G)"
    and "i \<noteq> j"
  shows "{position (find_technical_terms T G ! i) ..< end_position (find_technical_terms T G ! i)} \<inter>
         {position (find_technical_terms T G ! j) ..< end_position (find_technical_terms T G ! j)} = {}"
proof -
  let ?ms = "find_technical_terms T G"
  have sep: "\<And>a b. a < b \<Longrightarrow> b < length ?ms \<Longrightarrow> end_position (?ms ! a) \<le> position (?ms ! b)"
    using find_technical_terms_separated [of T G] by (simp add: sorted_wrt_iff_nth_less)
  from assms(3) consider "i < j" | "j < i" by linarith
  then show ?thesis
  proof cases
    case 1
    from sep [OF 1 assms(2)] show ?thesis by auto
  next
    case 2
    from sep [OF 2 assms(1)] show ?thesis by auto
  qed
qed

theorem find_technical_terms_non_overlap_witness:
  "(0::nat) < length (find_technical_terms ''the cortex and the prefrontal cortex'' glossary_cortex) \<and>
   (1::nat) < length (find_technical_terms ''the cortex and the prefrontal cortex'' glossary_cortex) \<and>
   (0::nat) \<noteq> 1 \<and>
   {position (find_technical_terms ''the cortex and the prefrontal cortex'' glossary_cortex ! 0) ..<
    end_position (find_technical_terms ''the cortex and the prefrontal cortex'' glossary_cortex ! 0)} \<inter>
   {position (find_technical_terms ''the cortex and the prefrontal cortex'' glossary_cortex ! 1) ..<
    end_position (find_technical_terms ''the cortex and the prefrontal cortex'' glossary_cortex ! 1)} = {}"
proof -
  let ?ms = "find_technical_terms ''the cortex and the prefrontal cortex'' glossary_cortex"
  have h0: "(0::nat) < length ?ms" by code_simp
  have h1: "(1::nat) < length ?ms" by code_simp
  have h2: "(0::nat) \<noteq> 1" by simp
  from find_technical_terms_non_overlap [OF h0 h1 h2] h0 h1 h2 show ?thesis by blast
qed

text \<open>
  Claim C4.  With the glossary of the two terms "cortex" and "prefrontal
  cortex", in either order, the matches found in "the prefrontal cortex
  activates" are the single match of "prefrontal cortex" at offsets 4 to 21;
  the embedded "cortex" is not matched.
\<close>

theorem longest_match_precedence:
  "find_technical_terms ''the prefrontal cortex activates'' glossary_cortex =
     [\<lparr>term_text = ''prefrontal cortex'', position = 4, end_position = 21,
       defn = ''planning center'', category = ''neuroscience''\<rparr>] \<and>
   find_technical_terms ''the prefrontal cortex activates'' (rev glossary_cortex) =
     [\<lparr>term_text = ''prefrontal cortex'', position = 4, end_position = 21,
       defn = ''planning center'', category = ''neuroscience''\<rparr>] \<and>
   ''cortex'' \<notin> set (map term_text
       (find_technical_terms ''the prefrontal cortex activates'' glossary_cortex))"
  by code_simp

section \<open>Properties of the injector\<close>




lemma length_sort_key_reverse [simp]: "length (sort_key_reverse f xs) = length xs"
  by (simp add: sort_key_reverse_def)

lemma set_sort_key_reverse [simp]: "set (sort_key_reverse f xs) = set xs"
  by (simp add: sort_key_reverse_def)

lemma distinct_sort_key_reverse [simp]: "distinct (sort_key_reverse f xs) = distinct xs"
  by (simp add: sort_key_reverse_def)



lemma top_terms_Nil [simp]: "top_terms [] n = []"
  by (simp add: top_terms_def slice_to_def sort_key_reverse_def)













section \<open>Properties of the validator's strip\<close>




























section \<open>Properties of the complexity analyzer\<close>

lemma vowel_runs_after_vowel:
  "vowel_runs True cs = vowel_runs False (dropWhile is_vowel cs)"
  by (induction cs) simp_all

lemma vowel_pattern_vowel:
  "is_vowel c \<Longrightarrow>
   vowel_pattern p (c # cs) =
     Some (c # takeWhile is_vowel cs, Suc (length (takeWhile is_vowel cs)))"
  by (simp add: vowel_pattern_def)

lemma vowel_pattern_other: "\<not> is_vowel c \<Longrightarrow> vowel_pattern p (c # cs) = None"
  by (simp add: vowel_pattern_def)

lemma length_vowel_groups:
  "length (concat (map (case_sum (\<lambda>r. [r]) (\<lambda>c. [])) (re_scan vowel_pattern p s))) =
   vowel_runs False s"
proof (induction s arbitrary: p rule: length_induct)
  case (1 s)
  show ?case
  proof (cases s)
    case Nil
    then show ?thesis by simp
  next
    case (Cons c cs)
    show ?thesis
    proof (cases "is_vowel c")
      case True
      have shorter: "length (dropWhile is_vowel cs) < length s"
        using Cons length_dropWhile_le [of is_vowel cs] by simp
      have "drop (length (takeWhile is_vowel cs)) cs = dropWhile is_vowel cs"
        by (simp add: dropWhile_eq_drop)
      then have "re_scan vowel_pattern p (c # cs) =
            Inl (c # takeWhile is_vowel cs) #
            re_scan vowel_pattern (Some ((c # cs) ! length (takeWhile is_vowel cs)))
              (dropWhile is_vowel cs)"
        using vowel_pattern_vowel [OF True, of p cs] by simp
      then show ?thesis
        using 1 shorter True Cons by (simp add: vowel_runs_after_vowel)
    next
      case False
      have "length cs < length s" using Cons by simp
      then show ?thesis
        using 1 False Cons by (simp add: vowel_pattern_other)
    qed
  qed
qed

lemma to_lower_not_upper: "\<not> is_upper (to_lower c)"
proof (cases "is_upper c")
  case True
  then have "65 \<le> (of_char c :: nat)" "(of_char c :: nat) \<le> 90"
    by (simp_all add: is_upper_def less_eq_char_def)
  then have "(of_char (char_of (of_char c + (32::nat))) :: nat) = of_char c + 32"
    by simp
  then show ?thesis
    using True \<open>65 \<le> (of_char c :: nat)\<close>
    by (simp add: to_lower_def is_upper_def less_eq_char_def)
next
  case False
  then show ?thesis by (simp add: to_lower_def)
qed

lemma filter_lower_alpha: "filter is_lower (lower w) = filter is_alpha (lower w)"
  by (induction w) (simp_all add: lower_def is_alpha_def to_lower_not_upper)

lemma space_not_lower: "is_space c \<Longrightarrow> \<not> is_lower c"
  by (auto simp: is_space_def is_lower_def less_eq_char_def)

lemma filter_dropWhile_other:
  "(\<And>c. Q c \<Longrightarrow> \<not> P c) \<Longrightarrow> filter P (dropWhile Q s) = filter P s"
  by (induction s) auto

lemma filter_lower_strip: "filter is_lower (strip s) = filter is_lower s"
proof -
  have "filter is_lower (strip s) =
        rev (filter is_lower (dropWhile is_space (rev (dropWhile is_space s))))"
    by (simp add: strip_def rev_filter)
  also have "\<dots> = rev (filter is_lower (rev (dropWhile is_space s)))"
    by (simp add: filter_dropWhile_other space_not_lower)
  also have "\<dots> = filter is_lower (dropWhile is_space s)"
    by (simp add: rev_filter)
  also have "\<dots> = filter is_lower s"
    by (simp add: filter_dropWhile_other space_not_lower)
  finally show ?thesis .
qed

lemma cleaned_word: "filter is_lower (strip (lower w)) = alphabetic_form w"
  by (simp add: filter_lower_strip filter_lower_alpha alphabetic_form_def)

lemma endswith_char: "endswith s [x] = (s \<noteq> [] \<and> last s = x)"
proof (cases s rule: rev_cases)
  case Nil
  then show ?thesis by (simp add: endswith_def)
next
  case (snoc ys y)
  then show ?thesis by (simp add: endswith_def)
qed

text \<open>
  Claim C8, as amended.  For every word whose lower-cased, alphabetic-only
  form is not empty, \<open>count_syllables\<close> is the number of maximal vowel runs of
  that form, minus one if the form ends in \<open>e\<close> and has more than one run,
  floored at 1; for a word whose form is empty it is 0.
\<close>

theorem count_syllables_rule:
  "count_syllables w = (if alphabetic_form w = [] then 0 else spec_count_syllables w)"
proof (cases "alphabetic_form w = []")
  case True
  then show ?thesis by (simp add: count_syllables_def cleaned_word)
next
  case False
  have "length (re_findall vowel_pattern (alphabetic_form w)) =
        vowel_runs False (alphabetic_form w)"
    unfolding re_findall_def by (rule length_vowel_groups)
  then show ?thesis
    using False
    by (simp add: count_syllables_def cleaned_word spec_count_syllables_def Let_def endswith_char)
qed

text \<open>
  The claim as stated, for every word, fails for a token without a letter: the
  rule gives the floor 1, the function returns 0.
\<close>

theorem count_syllables_rule_counterexample:
  "count_syllables ''42'' = 0 \<and> spec_count_syllables ''42'' = 1 \<and>
   count_syllables [] = 0 \<and> spec_count_syllables [] = 1"
  by code_simp

text \<open>
  Claim C7, evaluated.  The abbreviations \<open>Dr.\<close>, \<open>Mrs.\<close> and \<open>etc.\<close> are
  protected, but \<open>e.g.\<close> and \<open>i.e.\<close> keep their inner full stop, where the text
  is split: the sentence "I like fruit, e.g. apples." counts as two sentences,
  one more than the same sentence without the abbreviation.
\<close>

theorem count_sentences_abbreviations:
  "count_sentences ''Dr. Smith met Mrs. Jones etc. today.'' = 1 \<and>
   re_sub abbreviation_pattern ''I like fruit, e.g. apples.'' = ''I like fruit, e.g<PERIOD> apples.'' \<and>
   count_sentences ''I like fruit, e.g. apples.'' = 2 \<and>
   count_sentences ''I like fruit, apples.'' = 1 \<and>
   count_sentences ''We use tools, i.e. hammers.'' = 2 \<and>
   count_sentences ''We use tools, hammers.'' = 1"
  by code_simp

text \<open>
  Claim C9, as amended.  For the text "This is a simple test. The text is easy
  to read." the analyzer returns 11 words, 2 sentences and 12 syllables, and
  the grade level is -0.57, which is at most 2.0.
\<close>

theorem simple_text_scenario:
  "analyze_text_complexity ''This is a simple test. The text is easy to read.'' = (11, 2, 12) \<and>
   grade_level_of ''This is a simple test. The text is easy to read.'' = - 57 / 100 \<and>
   grade_level_of ''This is a simple test. The text is easy to read.'' \<le> 2"
proof -
  have a: "analyze_text_complexity ''This is a simple test. The text is easy to read.'' = (11, 2, 12)"
    by code_simp
  have g: "grade_level_of ''This is a simple test. The text is easy to read.'' = - 57 / 100"
    by code_simp
  have "(- 57 / 100 :: rat) \<le> 2" by simp
  with a g show ?thesis by simp
qed

text \<open>The word count of the claim as stated, 10, is not what the analyzer returns.\<close>

theorem simple_text_scenario_counterexample:
  "fst (analyze_text_complexity ''This is a simple test. The text is easy to read.'') \<noteq> 10 \<and>
   words_of ''This is a simple test. The text is easy to read.'' =
     [''This'', ''is'', ''a'', ''simple'', ''test'', ''The'', ''text'', ''is'', ''easy'', ''to'', ''read'']"
  by code_simp

section \<open>Properties of diagnosis and repair\<close>

text \<open>
  Claim C2.  A repair result is marked for update only if the grade level of
  the repaired text is strictly below the post-injection grade level of the
  diagnosis.  The revert policy returns the original text, so the grade level
  of its repaired text is the grade level of the original text; it equals the
  recorded grade level before injection whenever that was computed from the
  original text.
\<close>

theorem repair_monotone:
  "(should_update (repair_protocol p diag) \<longrightarrow>
      grade_level_of (repaired_text (repair_protocol p diag)) < d_reading_level_after diag \<and>
      reading_level_repaired (repair_protocol p diag) =
        grade_level_of (repaired_text (repair_protocol p diag))) \<and>
   rv_repaired_text (repair_protocol_revert p diag) = get_or (p_chunk_text p) [] \<and>
   rv_reading_level_repaired (repair_protocol_revert p diag) =
     grade_level_of (get_or (p_chunk_text p) []) \<and>
   (d_reading_level_before diag = grade_level_of (get_or (p_chunk_text p) []) \<longrightarrow>
      rv_reading_level_repaired (repair_protocol_revert p diag) = d_reading_level_before diag)"
proof -
  obtain repaired applied modified
    where a: "apply_strategy (d_repair_strategies diag) (get_or (p_simplified_text p) []) =
              (repaired, applied, modified)"
    by (cases "apply_strategy (d_repair_strategies diag) (get_or (p_simplified_text p) [])")
  have "should_update (repair_protocol p diag) \<longrightarrow>
      grade_level_of (repaired_text (repair_protocol p diag)) < d_reading_level_after diag \<and>
      reading_level_repaired (repair_protocol p diag) =
        grade_level_of (repaired_text (repair_protocol p diag))"
    by (simp add: repair_protocol_def Let_def a)
  moreover have "rv_repaired_text (repair_protocol_revert p diag) = get_or (p_chunk_text p) []"
    by (simp add: repair_protocol_revert_def Let_def)
  moreover have "rv_reading_level_repaired (repair_protocol_revert p diag) =
     grade_level_of (get_or (p_chunk_text p) [])"
    by (simp add: repair_protocol_revert_def Let_def)
  ultimately show ?thesis by simp
qed

theorem repair_monotone_witness:
  "d_reading_level_before (diagnose_degradation complex_tooltip_protocol) <
     d_reading_level_after (diagnose_degradation complex_tooltip_protocol) \<and>
   should_update (repair_protocol complex_tooltip_protocol
     (diagnose_degradation complex_tooltip_protocol)) \<and>
   repaired_text (repair_protocol complex_tooltip_protocol
     (diagnose_degradation complex_tooltip_protocol)) = ''{{Cortex||outer layer}}.'' \<and>
   grade_level_of (repaired_text (repair_protocol complex_tooltip_protocol
     (diagnose_degradation complex_tooltip_protocol))) <
     d_reading_level_after (diagnose_degradation complex_tooltip_protocol) \<and>
   d_reading_level_before (diagnose_degradation complex_tooltip_protocol) =
     grade_level_of (get_or (p_chunk_text complex_tooltip_protocol) []) \<and>
   rv_reading_level_repaired (repair_protocol_revert complex_tooltip_protocol
     (diagnose_degradation complex_tooltip_protocol)) =
     d_reading_level_before (diagnose_degradation complex_tooltip_protocol)"
proof -
  have d: "diagnose_degradation complex_tooltip_protocol = complex_tooltip_diagnosis"
    by code_simp
  have r: "repair_protocol complex_tooltip_protocol complex_tooltip_diagnosis =
      \<lparr>protocol_id = ''p2'', chunk_summary = ''No summary'',
       reading_level_before = 42 / 5, reading_level_after = 1039 / 50,
       reading_level_repaired = 21 / 4, degradation = 619 / 50,
       repair_improvement = 1553 / 100, net_change = - (63 / 20),
       strategy_applied = Some simplify_language, tooltips_modified = 0,
       should_update = True, repaired_text = ''{{Cortex||outer layer}}.''\<rparr>"
    by code_simp
  have g: "grade_level_of ''{{Cortex||outer layer}}.'' = 21 / 4" by code_simp
  have b: "grade_level_of (get_or (p_chunk_text complex_tooltip_protocol) []) = 42 / 5"
    by code_simp
  have lv: "d_reading_level_before complex_tooltip_diagnosis = 42 / 5"
    "d_reading_level_after complex_tooltip_diagnosis = 1039 / 50"
    by (simp_all add: complex_tooltip_diagnosis_def)
  from repair_monotone [of complex_tooltip_protocol complex_tooltip_diagnosis]
  show ?thesis by (simp add: d r g b lv)
qed

text \<open>
  Claim C6, evaluated.  For the degraded protocol whose one tooltip has a
  definition of 16 simple words, the diagnosis yields the single strategy
  \<open>shorten_definitions\<close>; \<open>repair_protocol\<close> has no branch for it, applies no
  strategy and leaves the text as it was.
\<close>

theorem shorten_definitions_not_applied:
  "d_reading_level_before (diagnose_degradation long_tooltip_protocol) <
     d_reading_level_after (diagnose_degradation long_tooltip_protocol) \<and>
   d_long_tooltips (diagnose_degradation long_tooltip_protocol) = 1 \<and>
   d_complex_tooltips (diagnose_degradation long_tooltip_protocol) = 0 \<and>
   d_max_tooltips_per_sentence (diagnose_degradation long_tooltip_protocol) = 1 \<and>
   d_repair_strategies (diagnose_degradation long_tooltip_protocol) = [shorten_definitions] \<and>
   strategy_applied (repair_protocol long_tooltip_protocol
     (diagnose_degradation long_tooltip_protocol)) = None \<and>
   repaired_text (repair_protocol long_tooltip_protocol
     (diagnose_degradation long_tooltip_protocol)) =
     ''The {{cortex||it is the part of the head we use to plan and to think a lot}} is here.'' \<and>
   \<not> should_update (repair_protocol long_tooltip_protocol
     (diagnose_degradation long_tooltip_protocol))"
proof -
  have d: "diagnose_degradation long_tooltip_protocol = long_tooltip_diagnosis"
    by code_simp
  have r: "repair_protocol long_tooltip_protocol long_tooltip_diagnosis =
      \<lparr>protocol_id = ''p1'', chunk_summary = ''No summary'',
       reading_level_before = 18 / 25, reading_level_after = 23 / 5,
       reading_level_repaired = 23 / 5, degradation = 97 / 25,
       repair_improvement = 0, net_change = 97 / 25, strategy_applied = None,
       tooltips_modified = 0, should_update = False,
       repaired_text =
         ''The {{cortex||it is the part of the head we use to plan and to think a lot}} is here.''\<rparr>"
    by code_simp
  show ?thesis by (simp add: d r) (simp add: long_tooltip_diagnosis_def)
qed

end
